theory Spec2Isabelle
  imports Main
begin

section \<open>JSON values as the client sees them\<close>

text \<open>
  The client of \<^verbatim>\<open>src/unnamed/part_000\<close> exchanges JSON-RPC objects with a child
  process. A parsed message is a JavaScript value; the fragment modelled here is the one
  \<^verbatim>\<open>JSON.parse\<close> can return, with numbers restricted to integers (fractions and
  exponents are outside the model). The JavaScript value \<^verbatim>\<open>undefined\<close>, which
  a property read returns for a missing key, is \<open>None\<close> of \<open>json option\<close>.
\<close>

datatype json =
    JNull
  | JBool bool
  | JNum int
  | JStr string
  | JArr "json list"
  | JObj "(string \<times> json) list"

text \<open>
  Truthiness, as \<^verbatim>\<open>if (x)\<close> and \<^verbatim>\<open>x && y\<close> test it: \<^verbatim>\<open>undefined\<close>,
  \<^verbatim>\<open>null\<close>, \<^verbatim>\<open>false\<close>, \<^verbatim>\<open>0\<close> and the empty string are falsy,
  every array and object is truthy.
\<close>

fun truthy :: "json option \<Rightarrow> bool" where
  "truthy None = False"
| "truthy (Some JNull) = False"
| "truthy (Some (JBool b)) = b"
| "truthy (Some (JNum n)) = (n \<noteq> 0)"
| "truthy (Some (JStr s)) = (s \<noteq> [])"
| "truthy (Some (JArr xs)) = True"
| "truthy (Some (JObj fs)) = True"

text \<open>
  A property read \<^verbatim>\<open>v.name\<close> on a value that is neither \<^verbatim>\<open>null\<close> nor
  \<^verbatim>\<open>undefined\<close>. An object parsed from a text with a repeated key keeps the last
  occurrence. The names the client reads (\<^verbatim>\<open>id\<close>, \<^verbatim>\<open>error\<close>,
  \<^verbatim>\<open>result\<close>, \<^verbatim>\<open>message\<close>, \<^verbatim>\<open>code\<close>,
  \<^verbatim>\<open>protocolVersion\<close>, \<^verbatim>\<open>capabilities\<close>, \<^verbatim>\<open>serverInfo\<close>,
  \<^verbatim>\<open>name\<close>, \<^verbatim>\<open>version\<close>) are no properties of numbers, strings,
  booleans or arrays, so the read gives \<^verbatim>\<open>undefined\<close> there.
\<close>

fun get_prop :: "json \<Rightarrow> string \<Rightarrow> json option" where
  "get_prop (JObj fs) name = map_of (rev fs) name"
| "get_prop _ name = None"

subsection \<open>Numbers and strings as text\<close>

function digits :: "int \<Rightarrow> string" where
  "digits n =
     (if n < 10 then [''0123456789'' ! nat n]
      else digits (n div 10) @ [''0123456789'' ! nat (n mod 10)])"
  by pat_completeness auto
termination
  by (relation "measure nat") auto

declare digits.simps [simp del]

definition show_int :: "int \<Rightarrow> string" where
  "show_int i = (if i < 0 then CHR ''-'' # digits (- i) else digits i)"

fun intercalate :: "string \<Rightarrow> string list \<Rightarrow> string" where
  "intercalate sep [] = []"
| "intercalate sep [x] = x"
| "intercalate sep (x # y # ys) = x @ sep @ intercalate sep (y # ys)"

text \<open>
  The conversion to a string that a template literal \<^verbatim>\<open>`${v}`\<close> applies can throw.
  An object is converted by its \<^verbatim>\<open>toString\<close>; a parsed object that has a key
  \<^verbatim>\<open>toString\<close> of its own holds a value there that cannot be called, falls back
  on \<^verbatim>\<open>valueOf\<close>, which gives no primitive either, and the conversion throws a
  \<^verbatim>\<open>TypeError\<close>. An array joins the conversions of its elements, skipping
  \<^verbatim>\<open>null\<close>, so it throws when one of them does. Nothing else throws.
\<close>

fun throws :: "json \<Rightarrow> bool" where
  "throws (JObj fs) = (''toString'' \<in> set (map fst fs))"
| "throws (JArr xs) = list_ex (\<lambda>x. x \<noteq> JNull \<and> throws x) xs"
| "throws v = False"

definition conversion_throws :: "json option \<Rightarrow> bool" where
  "conversion_throws v = (case v of None \<Rightarrow> False | Some x \<Rightarrow> throws x)"

text \<open>
  The string the conversion gives: a string is itself, an integer of magnitude up to
  \<open>2\<^sup>5\<^sup>3\<close> is its decimal numeral, an array joins its elements with commas, rendering
  \<^verbatim>\<open>null\<close> elements as empty, and an object without a \<^verbatim>\<open>toString\<close> key is
  \<^verbatim>\<open>[object Object]\<close>. \<open>None\<close> says that this theory gives no string: the
  conversion throws, or the value is a number beyond \<open>2\<^sup>5\<^sup>3\<close>, which JavaScript
  prints from its shortest decimal digits. No operation of the client depends on the
  string; an error keeps the values themselves.
\<close>

fun js_string :: "json option \<Rightarrow> string option" where
  "js_string None = Some ''undefined''"
| "js_string (Some JNull) = Some ''null''"
| "js_string (Some (JBool b)) = Some (if b then ''true'' else ''false'')"
| "js_string (Some (JNum n)) =
     (if \<bar>n\<bar> \<le> 9007199254740992 then Some (show_int n) else None)"
| "js_string (Some (JStr s)) = Some s"
| "js_string (Some (JArr xs)) =
     map_option (intercalate '','')
       (those (map (\<lambda>x. if x = JNull then Some [] else js_string (Some x)) xs))"
| "js_string (Some (JObj fs)) =
     (if ''toString'' \<in> set (map fst fs) then None else Some ''[object Object]'')"

subsection \<open>\<^verbatim>\<open>JSON.stringify\<close>\<close>

definition hex_digit :: "int \<Rightarrow> char" where
  "hex_digit n = ''0123456789abcdef'' ! nat n"

definition escape_char :: "char \<Rightarrow> string" where
  "escape_char c =
     (if c = CHR 0x22 then [CHR 0x5C, CHR 0x22]
      else if c = CHR 0x5C then [CHR 0x5C, CHR 0x5C]
      else if c = CHR 0x08 then [CHR 0x5C, CHR ''b'']
      else if c = CHR 0x0C then [CHR 0x5C, CHR ''f'']
      else if c = CHR 0x0A then [CHR 0x5C, CHR ''n'']
      else if c = CHR 0x0D then [CHR 0x5C, CHR ''r'']
      else if c = CHR 0x09 then [CHR 0x5C, CHR ''t'']
      else if (of_char c :: int) < 32
        then [CHR 0x5C, CHR ''u'', CHR ''0'', CHR ''0'',
              hex_digit (of_char c div 16), hex_digit (of_char c mod 16)]
      else [c])"

definition quote :: "string \<Rightarrow> string" where
  "quote s = [CHR 0x22] @ concat (map escape_char s) @ [CHR 0x22]"

fun stringify :: "json \<Rightarrow> string" where
  "stringify JNull = ''null''"
| "stringify (JBool b) = (if b then ''true'' else ''false'')"
| "stringify (JNum n) = show_int n"
| "stringify (JStr s) = quote s"
| "stringify (JArr xs) = ''['' @ intercalate '','' (map stringify xs) @ '']''"
| "stringify (JObj fs) =
     ''{'' @ intercalate '','' (map (\<lambda>(k, v). quote k @ '':'' @ stringify v) fs) @ ''}''"

subsection \<open>An executable \<^verbatim>\<open>JSON.parse\<close> for the integer fragment\<close>

text \<open>
  The client's inbound handler is modelled over any parser \<open>string \<Rightarrow> json option\<close>
  (\<open>None\<close> is the \<^verbatim>\<open>SyntaxError\<close> that \<^verbatim>\<open>JSON.parse\<close> throws), so the
  theorems on it hold of the runtime's parser whatever it accepts. \<open>JSON_parse\<close> below
  is a recursive-descent parser of the JSON grammar without fractions, exponents and
  \<^verbatim>\<open>\u\<close> escapes above \<open>00ff\<close>; it runs the model on concrete frames.
\<close>

definition is_digit :: "char \<Rightarrow> bool" where
  "is_digit c = (48 \<le> (of_char c :: int) \<and> (of_char c :: int) \<le> 57)"

definition is_json_ws :: "char \<Rightarrow> bool" where
  "is_json_ws c = (c = CHR '' '' \<or> c = CHR 0x09 \<or> c = CHR 0x0A \<or> c = CHR 0x0D)"

definition skip_ws :: "string \<Rightarrow> string" where
  "skip_ws s = dropWhile is_json_ws s"

definition hex_val :: "char \<Rightarrow> int option" where
  "hex_val c =
     (let n = (of_char c :: int) in
      if 48 \<le> n \<and> n \<le> 57 then Some (n - 48)
      else if 97 \<le> n \<and> n \<le> 102 then Some (n - 87)
      else if 65 \<le> n \<and> n \<le> 70 then Some (n - 55)
      else None)"

definition unescape :: "char \<Rightarrow> char option" where
  "unescape e =
     (if e = CHR 0x22 then Some (CHR 0x22)
      else if e = CHR 0x5C then Some (CHR 0x5C)
      else if e = CHR ''/'' then Some (CHR ''/'')
      else if e = CHR ''b'' then Some (CHR 0x08)
      else if e = CHR ''f'' then Some (CHR 0x0C)
      else if e = CHR ''n'' then Some (CHR 0x0A)
      else if e = CHR ''r'' then Some (CHR 0x0D)
      else if e = CHR ''t'' then Some (CHR 0x09)
      else None)"

fun parse_string :: "string \<Rightarrow> string \<Rightarrow> (string \<times> string) option" where
  "parse_string [] acc = None"
| "parse_string (c # cs) acc =
     (if c = CHR 0x22 then Some (acc, cs)
      else if c = CHR 0x5C then
        (case cs of
           [] \<Rightarrow> None
         | e # r \<Rightarrow>
             (if e = CHR ''u'' then
                (case r of
                   h1 # h2 # h3 # h4 # r' \<Rightarrow>
                     (case (hex_val h1, hex_val h2, hex_val h3, hex_val h4) of
                        (Some a, Some b, Some c', Some d) \<Rightarrow>
                          (if a = 0 \<and> b = 0
                           then parse_string r' (acc @ [char_of (16 * c' + d)])
                           else None)
                      | _ \<Rightarrow> None)
                 | _ \<Rightarrow> None)
              else
                (case unescape e of
                   None \<Rightarrow> None
                 | Some x \<Rightarrow> parse_string r (acc @ [x]))))
      else if (of_char c :: int) < 32 then None
      else parse_string cs (acc @ [c]))"

fun parse_digits :: "string \<Rightarrow> int \<Rightarrow> int \<times> string" where
  "parse_digits [] acc = (acc, [])"
| "parse_digits (c # cs) acc =
     (if is_digit c then parse_digits cs (10 * acc + (of_char c - 48)) else (acc, c # cs))"

definition number_end :: "string \<Rightarrow> bool" where
  "number_end rest =
     (case rest of
        [] \<Rightarrow> True
      | c # _ \<Rightarrow> \<not> (is_digit c \<or> c = CHR ''.'' \<or> c = CHR ''e'' \<or> c = CHR ''E''))"

definition parse_number :: "string \<Rightarrow> (json \<times> string) option" where
  "parse_number cs =
     (let neg = (cs \<noteq> [] \<and> hd cs = CHR ''-'');
          r = (if neg then tl cs else cs)
      in case r of
           [] \<Rightarrow> None
         | d # r' \<Rightarrow>
             (if \<not> is_digit d then None
              else
                (let (n, rest) = (if d = CHR ''0'' then (0, r') else parse_digits r 0)
                 in if number_end rest
                    then Some (JNum (if neg then - n else n), rest)
                    else None)))"

definition startsWith :: "string \<Rightarrow> string \<Rightarrow> bool" where
  "startsWith s pre = (take (length pre) s = pre)"

definition endsWith :: "string \<Rightarrow> string \<Rightarrow> bool" where
  "endsWith s suf = (length suf \<le> length s \<and> drop (length s - length suf) s = suf)"

fun parse_value :: "nat \<Rightarrow> string \<Rightarrow> (json \<times> string) option"
  and parse_elements :: "nat \<Rightarrow> string \<Rightarrow> json list \<Rightarrow> (json \<times> string) option"
  and parse_members :: "nat \<Rightarrow> string \<Rightarrow> (string \<times> json) list \<Rightarrow> (json \<times> string) option"
where
  "parse_value 0 cs = None"
| "parse_value (Suc n) cs =
     (let s = skip_ws cs in
      if startsWith s ''{'' then
        (if startsWith (skip_ws (tl s)) ''}'' then Some (JObj [], tl (skip_ws (tl s)))
         else parse_members n (tl s) [])
      else if startsWith s ''['' then
        (if startsWith (skip_ws (tl s)) '']'' then Some (JArr [], tl (skip_ws (tl s)))
         else parse_elements n (tl s) [])
      else if startsWith s [CHR 0x22] then
        (case parse_string (tl s) [] of
           None \<Rightarrow> None
         | Some (str, rest) \<Rightarrow> Some (JStr str, rest))
      else if startsWith s ''true'' then Some (JBool True, drop 4 s)
      else if startsWith s ''false'' then Some (JBool False, drop 5 s)
      else if startsWith s ''null'' then Some (JNull, drop 4 s)
      else parse_number s)"
| "parse_elements 0 cs acc = None"
| "parse_elements (Suc n) cs acc =
     (case parse_value n cs of
        None \<Rightarrow> None
      | Some (v, rest) \<Rightarrow>
          (let s = skip_ws rest in
           if startsWith s '','' then parse_elements n (tl s) (acc @ [v])
           else if startsWith s '']'' then Some (JArr (acc @ [v]), tl s)
           else None))"
| "parse_members 0 cs acc = None"
| "parse_members (Suc n) cs acc =
     (let s = skip_ws cs in
      if \<not> startsWith s [CHR 0x22] then None
      else
        (case parse_string (tl s) [] of
           None \<Rightarrow> None
         | Some (k, r1) \<Rightarrow>
             (let s1 = skip_ws r1 in
              if \<not> startsWith s1 '':'' then None
              else
                (case parse_value n (tl s1) of
                   None \<Rightarrow> None
                 | Some (v, r2) \<Rightarrow>
                     (let s2 = skip_ws r2 in
                      if startsWith s2 '','' then parse_members n (tl s2) (acc @ [(k, v)])
                      else if startsWith s2 ''}'' then Some (JObj (acc @ [(k, v)]), tl s2)
                      else None)))))"

definition JSON_parse :: "string \<Rightarrow> json option" where
  "JSON_parse s =
     (case parse_value (Suc (length s)) s of
        None \<Rightarrow> None
      | Some (v, rest) \<Rightarrow> (if skip_ws rest = [] then Some v else None))"

section \<open>The client\<close>

text \<open>
  \<^verbatim>\<open>class Client\<close> has four private fields. A child process object is known by
  its identity, a number. The values of \<^verbatim>\<open>_responseHandlers\<close> are closures that
  settle the promise of one \<^verbatim>\<open>request\<close> call; all of them run the same code, and
  they differ in the \<^verbatim>\<open>async\<close> method suspended on that promise, which is what
  \<open>caller\<close> records: \<^verbatim>\<open>connect\<close> (through \<^verbatim>\<open>initialize\<close>) or
  \<^verbatim>\<open>listTools\<close>.
\<close>

type_synonym proc = nat

datatype caller = Connect | ListTools

record client =
  serverProcess :: "proc option"
  nextRequestId :: int
  responseHandlers :: "int \<rightharpoonup> caller"
  isConnected :: bool

definition new_client :: client where
  "new_client =
     \<lparr>serverProcess = None, nextRequestId = 1, responseHandlers = Map.empty,
      isConnected = False\<rparr>"

text \<open>
  The errors a promise is rejected with: an \<^verbatim>\<open>Error\<close> with a fixed message, the
  \<^verbatim>\<open>Error\<close> of \<^verbatim>\<open>request\<close> whose message is the template
  \<^verbatim>\<open>Request failed: ${message} (${code})\<close> filled with the two values kept here, and
  a \<^verbatim>\<open>TypeError\<close> of the runtime.
\<close>

datatype js_error =
    Error string
  | RequestFailed "json option" "json option"
  | TypeError

text \<open>The message of an error, where this theory gives the strings of its values.\<close>

fun error_message :: "js_error \<Rightarrow> string option" where
  "error_message (Error m) = Some m"
| "error_message (RequestFailed message code) =
     (case (js_string message, js_string code) of
        (Some m, Some k) \<Rightarrow> Some (''Request failed: '' @ m @ '' ('' @ k @ '')'')
      | _ \<Rightarrow> None)"
| "error_message TypeError = None"

datatype listener = StdoutData | StderrData | Close

text \<open>
  What a method does to the outside, in order: it attaches a listener to a child process,
  writes a line to its standard input, kills it, or settles the promise that a public
  method returned for the request with the given identifier (\<open>Inl\<close> rejects, \<open>Inr\<close>
  resolves). Console output is left out, and a write to the child's standard input is
  taken to accept the line.
\<close>

datatype effect =
    On proc listener
  | StdinWrite proc string
  | Kill proc
  | Settle caller int "js_error + json option"

text \<open>
  \<^verbatim>\<open>this.nextRequestId++\<close> on a JavaScript number, an IEEE 754 double: adding one
  is exact below \<open>2\<^sup>5\<^sup>3\<close>, and at \<open>2\<^sup>5\<^sup>3 = 9007199254740992\<close> the sum rounds
  back to \<open>2\<^sup>5\<^sup>3\<close>.
\<close>

definition increment :: "int \<Rightarrow> int" where
  "increment n = (if n < 9007199254740992 then n + 1 else n)"

definition request_message :: "int \<Rightarrow> string \<Rightarrow> json \<Rightarrow> json" where
  "request_message rid method params =
     JObj [(''jsonrpc'', JStr ''2.0''), (''id'', JNum rid), (''method'', JStr method),
           (''params'', params)]"

definition notification_message :: "string \<Rightarrow> json \<Rightarrow> json" where
  "notification_message method params =
     JObj [(''jsonrpc'', JStr ''2.0''), (''method'', JStr method), (''params'', params)]"

definition line :: "json \<Rightarrow> string" where
  "line msg = stringify msg @ [CHR 0x0A]"

text \<open>
  \<^verbatim>\<open>request\<close> returns a promise. \<open>Inl e\<close> is the promise already rejected with
  \<open>e\<close>; \<open>Inr rid\<close> is the promise left pending, to be settled by the handler stored
  under \<open>rid\<close>.
\<close>

definition request ::
  "client \<Rightarrow> string \<Rightarrow> json \<Rightarrow> caller \<Rightarrow> (js_error + int) \<times> effect list \<times> client" where
  "request c method params k =
     (case serverProcess c of
        None \<Rightarrow> (Inl (Error ''Not connected to a server''), [], c)
      | Some p \<Rightarrow>
          (let rid = nextRequestId c
           in (Inr rid,
               [StdinWrite p (line (request_message rid method params))],
               c\<lparr>nextRequestId := increment rid,
                 responseHandlers := (responseHandlers c)(rid \<mapsto> k)\<rparr>)))"

definition notification :: "client \<Rightarrow> string \<Rightarrow> json \<Rightarrow> effect list" where
  "notification c method params =
     (case serverProcess c of
        None \<Rightarrow> []
      | Some p \<Rightarrow> [StdinWrite p (line (notification_message method params))])"

definition initParams :: json where
  "initParams =
     JObj [(''protocolVersion'', JStr ''2024-11-05''),
           (''capabilities'',
              JObj [(''roots'', JObj [(''listChanged'', JBool True)]),
                    (''sampling'', JObj [])]),
           (''clientInfo'',
              JObj [(''name'', JStr ''MCPStudyClient''), (''version'', JStr ''1.0.0'')])]"

text \<open>\<^verbatim>\<open>initialize\<close> up to its \<^verbatim>\<open>await\<close>.\<close>

definition initialize :: "client \<Rightarrow> (js_error + int) \<times> effect list \<times> client" where
  "initialize c = request c ''initialize'' initParams Connect"

text \<open>
  \<^verbatim>\<open>connect\<close> up to its \<^verbatim>\<open>await\<close>: the guard on \<^verbatim>\<open>isConnected\<close>, the three
  listeners, and the \<^verbatim>\<open>initialize\<close> request.
\<close>

definition connect :: "client \<Rightarrow> proc \<Rightarrow> (js_error + int) \<times> effect list \<times> client" where
  "connect c p =
     (if isConnected c
      then (Inl (Error ''Client is already connected to a server''), [], c)
      else
        (let (r, es, c') = initialize (c\<lparr>serverProcess := Some p\<rparr>)
         in (r, [On p StdoutData, On p StderrData, On p Close] @ es, c')))"

definition listTools :: "client \<Rightarrow> (js_error + int) \<times> effect list \<times> client" where
  "listTools c =
     (if \<not> isConnected c
      then (Inl (Error ''Not connected to a server''), [], c)
      else request c ''tools/list'' (JObj []) ListTools)"

definition disconnect :: "client \<Rightarrow> effect list \<times> client" where
  "disconnect c = ([], c\<lparr>isConnected := False, serverProcess := None\<rparr>)"

text \<open>The listener that \<^verbatim>\<open>connect\<close> attaches to the child's \<^verbatim>\<open>close\<close> event.\<close>

definition on_close :: "client \<Rightarrow> effect list \<times> client" where
  "on_close c = ([], c\<lparr>isConnected := False, serverProcess := None\<rparr>)"

text \<open>
  The \<^verbatim>\<open>SIGINT\<close> handler of \<^verbatim>\<open>main\<close>:
  \<^verbatim>\<open>client.disconnect(); serverProcess.kill()\<close>. Ending the child is the
  business of \<^verbatim>\<open>main\<close>, here and where it catches an error; no method of the
  client does it.
\<close>

definition sigint :: "client \<Rightarrow> proc \<Rightarrow> effect list \<times> client" where
  "sigint c p = (let (es, c') = disconnect c in (es @ [Kill p], c'))"

subsection \<open>The inbound handler\<close>

text \<open>
  A chunk is the text \<^verbatim>\<open>data.toString()\<close> gives, a \<open>char\<close> being a code point
  below 256. \<^verbatim>\<open>String.prototype.trim\<close> removes white space and line terminators at
  both ends; among these code points they are 9 to 13, 32 and 160.
\<close>

definition is_space :: "char \<Rightarrow> bool" where
  "is_space c =
     (c = CHR 0x09 \<or> c = CHR 0x0A \<or> c = CHR 0x0B \<or> c = CHR 0x0C \<or> c = CHR 0x0D
      \<or> c = CHR '' '' \<or> c = CHR 0xA0)"

definition trim :: "string \<Rightarrow> string" where
  "trim s = rev (dropWhile is_space (rev (dropWhile is_space s)))"

text \<open>
  The keys of \<^verbatim>\<open>_responseHandlers\<close> are numbers, so \<^verbatim>\<open>has\<close> and
  \<^verbatim>\<open>get\<close> find nothing under a value that is not a number.
\<close>

fun key_of :: "json option \<Rightarrow> int option" where
  "key_of (Some (JNum n)) = Some n"
| "key_of _ = None"

definition has :: "(int \<rightharpoonup> caller) \<Rightarrow> json option \<Rightarrow> bool" where
  "has m v = (case key_of v of None \<Rightarrow> False | Some n \<Rightarrow> m n \<noteq> None)"

definition get :: "(int \<rightharpoonup> caller) \<Rightarrow> json option \<Rightarrow> (int \<times> caller) option" where
  "get m v =
     (case key_of v of
        None \<Rightarrow> None
      | Some n \<Rightarrow> (case m n of None \<Rightarrow> None | Some k \<Rightarrow> Some (n, k)))"

text \<open>
  The closure that \<^verbatim>\<open>request\<close> registers: it rejects the request's promise when
  \<^verbatim>\<open>response.error\<close> is truthy and resolves it with \<^verbatim>\<open>response.result\<close>
  otherwise. Building the rejection converts \<^verbatim>\<open>response.error.message\<close> and
  \<^verbatim>\<open>response.error.code\<close> to strings; when a conversion throws, the closure
  throws before it settles anything, which is \<open>None\<close>.
\<close>

definition callback :: "json \<Rightarrow> (js_error + json option) option" where
  "callback response =
     (let error = get_prop response ''error'' in
      case error of
        None \<Rightarrow> Some (Inr (get_prop response ''result''))
      | Some e \<Rightarrow>
          (if truthy error
           then (if conversion_throws (get_prop e ''message'')
                    \<or> conversion_throws (get_prop e ''code'')
                 then None
                 else Some (Inl (RequestFailed (get_prop e ''message'') (get_prop e ''code''))))
           else Some (Inr (get_prop response ''result''))))"

text \<open>
  \<^verbatim>\<open>handleServerOutput\<close> on one chunk of the child's output, already decoded to
  text. It returns the handler that settled its promise, if any, with what it settled the
  promise to. A \<^verbatim>\<open>SyntaxError\<close> of the parser, the \<^verbatim>\<open>TypeError\<close> of
  reading \<^verbatim>\<open>id\<close> from \<^verbatim>\<open>null\<close>, and a \<^verbatim>\<open>TypeError\<close> thrown by
  the handler are caught and logged; a handler that throws is not deleted, since the
  \<^verbatim>\<open>delete\<close> follows its call.
\<close>

definition handleServerOutput ::
  "(string \<Rightarrow> json option) \<Rightarrow> client \<Rightarrow> string
     \<Rightarrow> (int \<times> caller \<times> (js_error + json option)) option \<times> client" where
  "handleServerOutput parse c data =
     (let output = trim data in
      if startsWith output ''{'' \<and> endsWith output ''}'' then
        (case parse output of
           None \<Rightarrow> (None, c)
         | Some response \<Rightarrow>
             (if response = JNull then (None, c)
              else
                (let rid = get_prop response ''id'' in
                 if truthy rid \<and> has (responseHandlers c) rid then
                   (case get (responseHandlers c) rid of
                      None \<Rightarrow> (None, c)
                    | Some (n, k) \<Rightarrow>
                        (case callback response of
                           None \<Rightarrow> (None, c)
                         | Some r \<Rightarrow>
                             (Some (n, k, r),
                              c\<lparr>responseHandlers := (responseHandlers c)(n := None)\<rparr>)))
                 else (None, c))))
      else (None, c))"

subsection \<open>After the await\<close>

text \<open>
  \<^verbatim>\<open>${x || "Not specified"}\<close> converts \<open>x\<close> when it is truthy and the fixed string
  otherwise.
\<close>

definition or_default_throws :: "json option \<Rightarrow> bool" where
  "or_default_throws x = (truthy x \<and> conversion_throws x)"

text \<open>
  The logging of a result that is neither \<^verbatim>\<open>undefined\<close> nor \<^verbatim>\<open>null\<close>. It
  prints \<^verbatim>\<open>protocolVersion\<close>, then each capability through
  \<^verbatim>\<open>JSON.stringify\<close>, which does not throw on a parsed value, then, when
  \<^verbatim>\<open>serverInfo\<close> is truthy, its \<^verbatim>\<open>name\<close> and \<^verbatim>\<open>version\<close>. It throws
  when one of the three conversions does.
\<close>

definition logging_throws :: "json \<Rightarrow> bool" where
  "logging_throws initResult =
     (or_default_throws (get_prop initResult ''protocolVersion'')
      \<or> (case get_prop initResult ''serverInfo'' of
            None \<Rightarrow> False
          | Some serverInfo \<Rightarrow>
              truthy (Some serverInfo)
              \<and> (or_default_throws (get_prop serverInfo ''name'')
                  \<or> or_default_throws (get_prop serverInfo ''version''))))"

text \<open>
  The rest of \<^verbatim>\<open>initialize\<close> once its request is settled, all of it inside
  \<^verbatim>\<open>try\<close>: whatever is thrown is logged and thrown again. A rejection of the
  request is thrown at the \<^verbatim>\<open>await\<close>. A result that is \<^verbatim>\<open>undefined\<close> or
  \<^verbatim>\<open>null\<close> makes \<^verbatim>\<open>initResult.protocolVersion\<close> throw a
  \<^verbatim>\<open>TypeError\<close>, and so does a logging that throws. Otherwise the
  \<^verbatim>\<open>notifications/initialized\<close> notification is sent.
\<close>

definition initialize_resume ::
  "client \<Rightarrow> js_error + json option \<Rightarrow> (js_error + unit) \<times> effect list" where
  "initialize_resume c r =
     (case r of
        Inl e \<Rightarrow> (Inl e, [])
      | Inr None \<Rightarrow> (Inl TypeError, [])
      | Inr (Some initResult) \<Rightarrow>
          (if initResult = JNull then (Inl TypeError, [])
           else if logging_throws initResult then (Inl TypeError, [])
           else (Inr (), notification c ''notifications/initialized'' (JObj []))))"

text \<open>The rest of \<^verbatim>\<open>connect\<close>: \<^verbatim>\<open>this.isConnected = true\<close> unless
  \<^verbatim>\<open>initialize\<close> threw.\<close>

definition connect_resume ::
  "client \<Rightarrow> int \<Rightarrow> js_error + json option \<Rightarrow> effect list \<times> client" where
  "connect_resume c rid r =
     (case initialize_resume c r of
        (Inl e, es) \<Rightarrow> (es @ [Settle Connect rid (Inl e)], c)
      | (Inr u, es) \<Rightarrow> (es @ [Settle Connect rid (Inr None)], c\<lparr>isConnected := True\<rparr>))"

definition listTools_resume ::
  "client \<Rightarrow> int \<Rightarrow> js_error + json option \<Rightarrow> effect list \<times> client" where
  "listTools_resume c rid r = ([Settle ListTools rid r], c)"

fun resume :: "client \<Rightarrow> caller \<Rightarrow> int \<Rightarrow> js_error + json option \<Rightarrow> effect list \<times> client" where
  "resume c Connect rid r = connect_resume c rid r"
| "resume c ListTools rid r = listTools_resume c rid r"

text \<open>
  One chunk reaching one \<^verbatim>\<open>data\<close> listener: the handler runs to its end, and the
  suspended method, if its promise was settled, runs next, before any other event.
\<close>

definition deliver ::
  "(string \<Rightarrow> json option) \<Rightarrow> client \<Rightarrow> string \<Rightarrow> effect list \<times> client" where
  "deliver parse c data =
     (case handleServerOutput parse c data of
        (None, c') \<Rightarrow> ([], c')
      | (Some (n, k, r), c') \<Rightarrow> resume c' k n r)"

section \<open>Sessions as sequences of events\<close>

text \<open>
  A session is what happens to one client: calls of its public methods, chunks arriving
  on the standard output of a child process, and a child process closing. The world
  keeps the client, everything it did so far, and what each call of \<^verbatim>\<open>connect\<close>
  and \<^verbatim>\<open>listTools\<close> returned.
\<close>

datatype event =
    Call_connect proc
  | Call_listTools
  | Call_disconnect
  | Stdout proc string
  | Exit proc

record world =
  the_client :: client
  trace :: "effect list"
  returned :: "(js_error + int) list"

definition new_world :: world where
  "new_world = \<lparr>the_client = new_client, trace = [], returned = []\<rparr>"

text \<open>
  An emitter calls every listener attached to it, once per attachment, and
  \<^verbatim>\<open>connect\<close> never detaches one.
\<close>

definition listeners :: "effect list \<Rightarrow> proc \<Rightarrow> listener \<Rightarrow> nat" where
  "listeners tr p l = count_list tr (On p l)"

fun emit_data ::
  "(string \<Rightarrow> json option) \<Rightarrow> client \<Rightarrow> string \<Rightarrow> nat
     \<Rightarrow> (int \<times> caller \<times> (js_error + json option)) list \<times> client" where
  "emit_data parse c data 0 = ([], c)"
| "emit_data parse c data (Suc n) =
     (case handleServerOutput parse c data of
        (s, c1) \<Rightarrow>
          (case emit_data parse c1 data n of
             (ss, c2) \<Rightarrow> ((case s of None \<Rightarrow> [] | Some x \<Rightarrow> [x]) @ ss, c2)))"

fun microtasks ::
  "client \<Rightarrow> (int \<times> caller \<times> (js_error + json option)) list \<Rightarrow> effect list \<times> client" where
  "microtasks c [] = ([], c)"
| "microtasks c ((n, k, r) # ss) =
     (case resume c k n r of
        (es, c1) \<Rightarrow> (case microtasks c1 ss of (es', c2) \<Rightarrow> (es @ es', c2)))"

text \<open>A chunk on the output of a child: all its listeners run, then the settled promises'
  continuations.\<close>

definition stdout_data ::
  "(string \<Rightarrow> json option) \<Rightarrow> client \<Rightarrow> string \<Rightarrow> nat \<Rightarrow> effect list \<times> client" where
  "stdout_data parse c data n =
     (case emit_data parse c data n of (ss, c1) \<Rightarrow> microtasks c1 ss)"

fun emit_close :: "client \<Rightarrow> nat \<Rightarrow> effect list \<times> client" where
  "emit_close c 0 = ([], c)"
| "emit_close c (Suc n) =
     (case on_close c of
        (es, c1) \<Rightarrow> (case emit_close c1 n of (es', c2) \<Rightarrow> (es @ es', c2)))"

fun step :: "(string \<Rightarrow> json option) \<Rightarrow> world \<Rightarrow> event \<Rightarrow> world" where
  "step parse w (Call_connect p) =
     (case connect (the_client w) p of
        (r, es, c) \<Rightarrow>
          w\<lparr>the_client := c, trace := trace w @ es, returned := returned w @ [r]\<rparr>)"
| "step parse w Call_listTools =
     (case listTools (the_client w) of
        (r, es, c) \<Rightarrow>
          w\<lparr>the_client := c, trace := trace w @ es, returned := returned w @ [r]\<rparr>)"
| "step parse w Call_disconnect =
     (case disconnect (the_client w) of
        (es, c) \<Rightarrow> w\<lparr>the_client := c, trace := trace w @ es\<rparr>)"
| "step parse w (Stdout p data) =
     (case stdout_data parse (the_client w) data (listeners (trace w) p StdoutData) of
        (es, c) \<Rightarrow> w\<lparr>the_client := c, trace := trace w @ es\<rparr>)"
| "step parse w (Exit p) =
     (case emit_close (the_client w) (listeners (trace w) p Close) of
        (es, c) \<Rightarrow> w\<lparr>the_client := c, trace := trace w @ es\<rparr>)"

definition run :: "(string \<Rightarrow> json option) \<Rightarrow> world \<Rightarrow> event list \<Rightarrow> world" where
  "run parse w evs = foldl (step parse) w evs"

text \<open>The identifiers of the requests issued so far, oldest first.\<close>

fun issued :: "(js_error + int) list \<Rightarrow> int list" where
  "issued [] = []"
| "issued (Inl e # rs) = issued rs"
| "issued (Inr n # rs) = n # issued rs"

text \<open>The continuations a step invoked: the promises it settled.\<close>

fun settled :: "effect list \<Rightarrow> (caller \<times> int \<times> (js_error + json option)) list" where
  "settled [] = []"
| "settled (Settle k n r # es) = (k, n, r) # settled es"
| "settled (e # es) = settled es"

text \<open>
  The identifier of the request number \<open>i\<close> of a session, counting from 0: the counter
  starts at 1 and \<open>increment\<close> stops at \<open>2\<^sup>5\<^sup>3\<close>.
\<close>

definition nth_id :: "nat \<Rightarrow> int" where
  "nth_id i = min (int i + 1) 9007199254740992"

text \<open>
  The invariant of a session: the counter is the identifier of the next request, the
  identifiers issued are those of the requests 0, 1, 2, ... in order, and every handler
  is registered under an identifier that was issued.
\<close>

definition counted :: "world \<Rightarrow> bool" where
  "counted w =
     (nextRequestId (the_client w) = nth_id (length (issued (returned w)))
      \<and> issued (returned w) = map nth_id [0..<length (issued (returned w))]
      \<and> dom (responseHandlers (the_client w)) \<subseteq> set (issued (returned w)))"

section \<open>Concrete sessions\<close>

text \<open>A client that sent \<^verbatim>\<open>initialize\<close> to child 0 and awaits the answer.\<close>

definition handshaking :: client where
  "handshaking = snd (snd (connect new_client 0))"

text \<open>A connected client with two calls pending, under the identifiers 2 and 3.\<close>

definition two_pending :: client where
  "two_pending =
     \<lparr>serverProcess = Some 0, nextRequestId = 4,
      responseHandlers = [2 \<mapsto> ListTools, 3 \<mapsto> ListTools], isConnected = True\<rparr>"

text \<open>A client that has, against the way identifiers are issued, a handler under 0.\<close>

definition handler_at_zero :: client where
  "handler_at_zero =
     \<lparr>serverProcess = Some 0, nextRequestId = 1,
      responseHandlers = [0 \<mapsto> ListTools], isConnected = True\<rparr>"

definition frame_id_0 :: string where
  \<open>frame_id_0 = ''{"jsonrpc":"2.0","id":0,"result":{}}''\<close>

definition frame_id_7 :: string where
  \<open>frame_id_7 = ''{"jsonrpc":"2.0","id":7,"result":{}}''\<close>

text \<open>The frame of the partial-delivery scenario, cut after the 19th character.\<close>

definition chunk_a :: string where
  \<open>chunk_a = ''{"jsonrpc":"2.0","i''\<close>

definition chunk_b :: string where
  \<open>chunk_b = ''d":1,"result":{}}'' @ [CHR 0x0A]\<close>

text \<open>The answers to \<^verbatim>\<open>initialize\<close> of the two handshake scenarios.\<close>

definition init_ok_frame :: string where
  \<open>init_ok_frame = ''{"id":1,"result":{"protocolVersion":"2024-11-05","capabilities":{},"serverInfo":{"name":"x","version":"1"}}}''\<close>

definition init_ok :: json where
  "init_ok =
     JObj [(''id'', JNum 1),
           (''result'',
              JObj [(''protocolVersion'', JStr ''2024-11-05''), (''capabilities'', JObj []),
                    (''serverInfo'', JObj [(''name'', JStr ''x''), (''version'', JStr ''1'')])])]"

definition init_error_frame :: string where
  \<open>init_error_frame = ''{"id":1,"error":{"code":-32000,"message":"boom"}}''\<close>

definition init_error :: json where
  "init_error =
     JObj [(''id'', JNum 1),
           (''error'', JObj [(''code'', JNum (- 32000)), (''message'', JStr ''boom'')])]"

text \<open>A client whose handshake with child 0 has succeeded.\<close>

definition ready :: client where
  "ready =
     \<lparr>serverProcess = Some 0, nextRequestId = 2, responseHandlers = Map.empty,
      isConnected = True\<rparr>"

text \<open>A handshake with child 0, then \<open>n\<close> calls of \<^verbatim>\<open>listTools\<close>.\<close>

definition busy_session :: "nat \<Rightarrow> event list" where
  "busy_session n = [Call_connect 0, Stdout 0 init_ok_frame] @ replicate n Call_listTools"





text \<open>An error whose message has no conversion to a string.\<close>

definition odd_error_frame :: string where
  \<open>odd_error_frame = ''{"id":1,"error":{"code":-32000,"message":{"toString":0}}}''\<close>

definition odd_error :: json where
  "odd_error =
     JObj [(''id'', JNum 1),
           (''error'',
              JObj [(''code'', JNum (- 32000)),
                    (''message'', JObj [(''toString'', JNum 0)])])]"

section \<open>Conversions to strings\<close>

text \<open>Where the conversion throws, no string is given.\<close>

lemma those_None: "None \<in> set xs \<Longrightarrow> those xs = None"
  by (induction xs) (auto split: option.splits)

lemma throws_no_string: "throws v \<Longrightarrow> js_string (Some v) = None"
proof (induction v)
  case (JArr xs)
  then obtain x where x: "x \<in> set xs" "x \<noteq> JNull" "throws x"
    by (auto simp: list_ex_iff)
  with JArr.IH have "js_string (Some x) = None" by simp
  with x have "None \<in> set (map (\<lambda>x. if x = JNull then Some [] else js_string (Some x)) xs)"
    by force
  then show ?case by (simp add: those_None)
qed simp_all

section \<open>What each operation changes\<close>

lemma handshaking_eq:
  "handshaking =
     \<lparr>serverProcess = Some 0, nextRequestId = 2,
      responseHandlers = [1 \<mapsto> Connect], isConnected = False\<rparr>"
  by (simp add: handshaking_def connect_def initialize_def request_def new_client_def
        increment_def)

lemma issued_snoc:
  "issued (rs @ [r]) = issued rs @ (case r of Inl e \<Rightarrow> [] | Inr n \<Rightarrow> [n])"
  by (induction rs rule: issued.induct) (auto split: sum.splits)

lemma increment_nth_id: "increment (nth_id k) = nth_id (Suc k)"
  by (simp add: increment_def nth_id_def min_def)

lemma request_result:
  "request c method params k = (r, es, c') \<Longrightarrow>
     (r = Inl (Error ''Not connected to a server'') \<and> es = [] \<and> c' = c) \<or>
     (r = Inr (nextRequestId c)
      \<and> c' = c\<lparr>nextRequestId := increment (nextRequestId c),
              responseHandlers := (responseHandlers c)(nextRequestId c \<mapsto> k)\<rparr>)"
  by (auto simp: request_def Let_def split: option.splits)

lemma connect_result:
  "connect c p = (r, es, c') \<Longrightarrow>
     (r = Inl (Error ''Client is already connected to a server'') \<and> es = [] \<and> c' = c) \<or>
     (r = Inr (nextRequestId c)
      \<and> c' = c\<lparr>serverProcess := Some p, nextRequestId := increment (nextRequestId c),
              responseHandlers := (responseHandlers c)(nextRequestId c \<mapsto> Connect)\<rparr>)"
  by (auto simp: connect_def initialize_def request_def Let_def split: if_splits)

lemma listTools_result:
  "listTools c = (r, es, c') \<Longrightarrow>
     (r = Inl (Error ''Not connected to a server'') \<and> es = [] \<and> c' = c) \<or>
     (r = Inr (nextRequestId c)
      \<and> c' = c\<lparr>nextRequestId := increment (nextRequestId c),
              responseHandlers := (responseHandlers c)(nextRequestId c \<mapsto> ListTools)\<rparr>)"
  by (auto simp: listTools_def dest: request_result split: if_splits)

lemma handleServerOutput_frame:
  "handleServerOutput parse c data = (s, c') \<Longrightarrow>
     nextRequestId c' = nextRequestId c \<and> serverProcess c' = serverProcess c
     \<and> isConnected c' = isConnected c
     \<and> dom (responseHandlers c') \<subseteq> dom (responseHandlers c)"
  by (auto simp: handleServerOutput_def Let_def split: if_splits option.splits)

lemma resume_frame:
  "resume c k n r = (es, c') \<Longrightarrow>
     nextRequestId c' = nextRequestId c \<and> serverProcess c' = serverProcess c
     \<and> responseHandlers c' = responseHandlers c"
  by (cases k)
     (auto simp: connect_resume_def listTools_resume_def split: prod.splits sum.splits)

lemma emit_data_frame:
  "emit_data parse c data n = (ss, c') \<Longrightarrow>
     nextRequestId c' = nextRequestId c \<and> serverProcess c' = serverProcess c
     \<and> dom (responseHandlers c') \<subseteq> dom (responseHandlers c)"
proof (induction n arbitrary: c ss c')
  case 0
  then show ?case by simp
next
  case (Suc n)
  obtain s c1 where h: "handleServerOutput parse c data = (s, c1)"
    by (cases "handleServerOutput parse c data")
  obtain ss1 c2 where e: "emit_data parse c1 data n = (ss1, c2)"
    by (cases "emit_data parse c1 data n")
  from Suc.prems h e have "c' = c2" by simp
  with Suc.IH [OF e] handleServerOutput_frame [OF h] show ?case by auto
qed

lemma microtasks_frame:
  "microtasks c ss = (es, c') \<Longrightarrow>
     nextRequestId c' = nextRequestId c \<and> serverProcess c' = serverProcess c
     \<and> responseHandlers c' = responseHandlers c"
proof (induction c ss arbitrary: es c' rule: microtasks.induct)
  case (1 c)
  then show ?case by simp
next
  case (2 c n k r ss)
  obtain es1 c1 where h: "resume c k n r = (es1, c1)"
    by (cases "resume c k n r")
  obtain es2 c2 where e: "microtasks c1 ss = (es2, c2)"
    by (cases "microtasks c1 ss")
  from "2.prems" h e have "c' = c2" by simp
  with "2.IH" [OF h [symmetric] e] resume_frame [OF h] show ?case by auto
qed

lemma stdout_data_frame:
  "stdout_data parse c data n = (es, c') \<Longrightarrow>
     nextRequestId c' = nextRequestId c \<and> serverProcess c' = serverProcess c
     \<and> dom (responseHandlers c') \<subseteq> dom (responseHandlers c)"
proof -
  assume a: "stdout_data parse c data n = (es, c')"
  obtain ss c1 where e: "emit_data parse c data n = (ss, c1)"
    by (cases "emit_data parse c data n")
  with a have m: "microtasks c1 ss = (es, c')" by (simp add: stdout_data_def)
  from emit_data_frame [OF e] microtasks_frame [OF m] show ?thesis by simp
qed

lemma emit_close_frame:
  "emit_close c n = ([], if n = 0 then c else c\<lparr>isConnected := False, serverProcess := None\<rparr>)"
  by (induction n arbitrary: c) (auto simp: on_close_def)

lemma counted_issue:
  assumes "counted w"
  shows "counted (w\<lparr>the_client := c\<lparr>nextRequestId := increment (nextRequestId (the_client w)),
              responseHandlers := (responseHandlers (the_client w))(nextRequestId (the_client w) \<mapsto> k)\<rparr>,
            trace := tr, returned := returned w @ [Inr (nextRequestId (the_client w))]\<rparr>)"
  using assms
  by (auto simp: counted_def issued_snoc increment_nth_id)

lemma counted_step: "counted w \<Longrightarrow> counted (step parse w ev)"
proof (cases ev)
  case (Call_connect p)
  assume c: "counted w"
  obtain r es c' where h: "connect (the_client w) p = (r, es, c')"
    by (cases "connect (the_client w) p")
  from connect_result [OF h] show ?thesis
  proof
    assume "r = Inl (Error ''Client is already connected to a server'') \<and> es = [] \<and> c' = the_client w"
    with c h Call_connect show ?thesis by (simp add: counted_def issued_snoc)
  next
    assume "r = Inr (nextRequestId (the_client w)) \<and>
      c' = (the_client w)\<lparr>serverProcess := Some p, nextRequestId := increment (nextRequestId (the_client w)),
              responseHandlers := (responseHandlers (the_client w))(nextRequestId (the_client w) \<mapsto> Connect)\<rparr>"
    with h Call_connect counted_issue [OF c, where c = "(the_client w)\<lparr>serverProcess := Some p\<rparr>" and k = Connect and tr = "trace w @ es"]
    show ?thesis by simp
  qed
next
  case Call_listTools
  assume c: "counted w"
  obtain r es c' where h: "listTools (the_client w) = (r, es, c')"
    by (cases "listTools (the_client w)")
  from listTools_result [OF h] show ?thesis
  proof
    assume "r = Inl (Error ''Not connected to a server'') \<and> es = [] \<and> c' = the_client w"
    with c h Call_listTools show ?thesis by (simp add: counted_def issued_snoc)
  next
    assume "r = Inr (nextRequestId (the_client w)) \<and>
      c' = (the_client w)\<lparr>nextRequestId := increment (nextRequestId (the_client w)),
              responseHandlers := (responseHandlers (the_client w))(nextRequestId (the_client w) \<mapsto> ListTools)\<rparr>"
    with h Call_listTools counted_issue [OF c, where c = "the_client w" and k = ListTools and tr = "trace w @ es"]
    show ?thesis by simp
  qed
next
  case Call_disconnect
  assume "counted w"
  with Call_disconnect show ?thesis by (simp add: counted_def disconnect_def)
next
  case (Stdout p data)
  assume c: "counted w"
  obtain es c' where h: "stdout_data parse (the_client w) data (listeners (trace w) p StdoutData) = (es, c')"
    by (cases "stdout_data parse (the_client w) data (listeners (trace w) p StdoutData)")
  from stdout_data_frame [OF h] c h Stdout show ?thesis
    by (auto simp: counted_def)
next
  case (Exit p)
  assume "counted w"
  with Exit show ?thesis by (simp add: counted_def emit_close_frame)
qed

lemma counted_run: "counted w \<Longrightarrow> counted (run parse w evs)"
  unfolding run_def by (induction evs arbitrary: w) (simp_all add: counted_step)

lemma counted_new_world: "counted new_world"
  by (simp add: counted_def new_world_def new_client_def nth_id_def)

lemma sorted_nth_id: "int n \<le> 9007199254740992 \<Longrightarrow> sorted_wrt (<) (map nth_id [0..<n])"
  by (auto simp: sorted_wrt_map sorted_wrt_iff_nth_less nth_id_def min_def)

section \<open>Closing and disconnecting\<close>

text \<open>
  C1 (as the code has it). When the child closes, the listener clears the connection flag
  and the process reference and nothing else: it invokes no continuation, and every
  handler that was pending stays in the registry, whatever was pending.
\<close>

theorem close_keeps_pending:
  "fst (on_close c) = []
   \<and> responseHandlers (snd (on_close c)) = responseHandlers c
   \<and> nextRequestId (snd (on_close c)) = nextRequestId c
   \<and> isConnected (snd (on_close c)) = False
   \<and> serverProcess (snd (on_close c)) = None
   \<and> trace (step parse w (Exit p)) = trace w
   \<and> returned (step parse w (Exit p)) = returned w
   \<and> responseHandlers (the_client (step parse w (Exit p))) = responseHandlers (the_client w)"
  by (simp add: on_close_def emit_close_frame)

text \<open>
  C1 as stated fails: with the calls 2 and 3 pending, the close listener settles no
  promise and leaves both handlers registered.
\<close>

theorem close_drains_counterexample:
  "settled (fst (on_close two_pending)) = []
   \<and> dom (responseHandlers (snd (on_close two_pending))) = {2, 3}"
  by (auto simp: on_close_def two_pending_def)

text \<open>
  C9. \<^verbatim>\<open>disconnect\<close> clears the connection flag and the process reference and does
  nothing else: no promise is settled, no handler leaves the registry, the counter keeps
  its value, and nothing is written to or done with the child (ending it is left to the
  \<^verbatim>\<open>SIGINT\<close> handler of \<^verbatim>\<open>main\<close>).
\<close>

theorem disconnect_frame:
  "fst (disconnect c) = []
   \<and> responseHandlers (snd (disconnect c)) = responseHandlers c
   \<and> nextRequestId (snd (disconnect c)) = nextRequestId c
   \<and> isConnected (snd (disconnect c)) = False
   \<and> serverProcess (snd (disconnect c)) = None
   \<and> trace (step parse w Call_disconnect) = trace w
   \<and> returned (step parse w Call_disconnect) = returned w
   \<and> fst (sigint c p) = [Kill p]"
  by (simp add: disconnect_def sigint_def)

section \<open>Calls outside a connection\<close>

text \<open>
  C8. \<^verbatim>\<open>listTools\<close> on a client whose connection flag is not set, as before any
  \<^verbatim>\<open>connect\<close>, returns a promise rejected with \<^verbatim>\<open>Not connected to a server\<close>,
  writes nothing, and leaves the client as it was.
\<close>

theorem listTools_before_connect:
  "\<not> isConnected c \<Longrightarrow> listTools c = (Inl (Error ''Not connected to a server''), [], c)"
  by (simp add: listTools_def)

theorem listTools_before_connect_witness:
  "\<not> isConnected new_client
   \<and> listTools new_client = (Inl (Error ''Not connected to a server''), [], new_client)"
proof -
  have h: "\<not> isConnected new_client" by (simp add: new_client_def)
  from listTools_before_connect [OF h] h show ?thesis by simp
qed

section \<open>Responses nobody waits for\<close>

lemma parse_frame_id_7:
  "JSON_parse (trim frame_id_7) =
     Some (JObj [(''jsonrpc'', JStr ''2.0''), (''id'', JNum 7), (''result'', JObj [])])"
  by code_simp

text \<open>
  C7. A chunk that parses to a response whose \<^verbatim>\<open>id\<close> is no key of the registry is
  dropped: the handler invokes no continuation and returns the client unchanged, and no
  suspended method runs.
\<close>

theorem unknown_id_dropped:
  assumes "parse (trim data) = Some response"
    and "\<not> has (responseHandlers c) (get_prop response ''id'')"
  shows "handleServerOutput parse c data = (None, c) \<and> deliver parse c data = ([], c)"
  using assms by (simp add: handleServerOutput_def deliver_def Let_def)

theorem unknown_id_dropped_witness:
  "JSON_parse (trim frame_id_7) =
     Some (JObj [(''jsonrpc'', JStr ''2.0''), (''id'', JNum 7), (''result'', JObj [])])
   \<and> \<not> has (responseHandlers handshaking)
         (get_prop (JObj [(''jsonrpc'', JStr ''2.0''), (''id'', JNum 7), (''result'', JObj [])])
            ''id'')
   \<and> handleServerOutput JSON_parse handshaking frame_id_7 = (None, handshaking)
   \<and> deliver JSON_parse handshaking frame_id_7 = ([], handshaking)"
proof -
  have h: "\<not> has (responseHandlers handshaking)
         (get_prop (JObj [(''jsonrpc'', JStr ''2.0''), (''id'', JNum 7), (''result'', JObj [])])
            ''id'')"
    by (simp add: has_def handshaking_eq)
  from unknown_id_dropped [where parse = JSON_parse and data = frame_id_7 and c = handshaking,
      OF parse_frame_id_7 h] parse_frame_id_7 h
  show ?thesis by simp
qed

section \<open>Several listeners on one output\<close>

text \<open>
  A handler that ran once on a chunk finds nothing to do on the same chunk again, so a
  child with any number of \<^verbatim>\<open>data\<close> listeners behaves as one with a single
  listener.
\<close>

lemma handleServerOutput_again:
  "handleServerOutput parse c data = (s, c1) \<Longrightarrow> handleServerOutput parse c1 data = (None, c1)"
  by (auto simp: handleServerOutput_def Let_def has_def get_def
           split: if_splits option.splits)

lemma emit_data_idle:
  "handleServerOutput parse c data = (None, c) \<Longrightarrow> emit_data parse c data n = ([], c)"
  by (induction n) simp_all

lemma emit_data_Suc_eq:
  "emit_data parse c data (Suc n) =
     (case handleServerOutput parse c data of
        (s, c1) \<Rightarrow> ((case s of None \<Rightarrow> [] | Some x \<Rightarrow> [x]), c1))"
proof -
  obtain s c1 where h: "handleServerOutput parse c data = (s, c1)"
    by (cases "handleServerOutput parse c data")
  from handleServerOutput_again [OF h] have "emit_data parse c1 data n = ([], c1)"
    by (rule emit_data_idle)
  with h show ?thesis by simp
qed

lemma stdout_data_deliver: "stdout_data parse c data (Suc n) = deliver parse c data"
  by (simp add: stdout_data_def deliver_def emit_data_Suc_eq del: emit_data.simps
           split: prod.splits option.splits)

lemma handleServerOutput_unparsed:
  "parse (trim data) = None \<Longrightarrow> handleServerOutput parse c data = (None, c)"
  by (simp add: handleServerOutput_def Let_def)

lemma stdout_data_unparsed:
  "parse (trim data) = None \<Longrightarrow> stdout_data parse c data n = ([], c)"
  by (simp add: stdout_data_def emit_data_idle handleServerOutput_unparsed)

section \<open>Frames cut in two\<close>

text \<open>
  C2 (as the code has it). The handler keeps nothing from one chunk to the next: each
  chunk is trimmed and parsed alone. When a frame arrives as two chunks neither of which
  parses alone, neither chunk invokes a continuation or changes the client, and the
  session after both chunks is the session before them: no message is dispatched.
\<close>

theorem split_frame_undelivered:
  assumes "parse (trim a) = None" and "parse (trim b) = None"
  shows "handleServerOutput parse c a = (None, c)
         \<and> handleServerOutput parse c b = (None, c)
         \<and> run parse w [Stdout p a, Stdout p b] = w"
  using assms by (simp add: handleServerOutput_unparsed run_def stdout_data_unparsed)

lemma chunks_alone:
  "JSON_parse (trim chunk_a) = None" "JSON_parse (trim chunk_b) = None"
  "\<not> endsWith (trim chunk_a) ''}''" "\<not> startsWith (trim chunk_b) ''{''"
  by code_simp+

lemma chunks_joined:
  "startsWith (trim (chunk_a @ chunk_b)) ''{''" "endsWith (trim (chunk_a @ chunk_b)) ''}''"
  "JSON_parse (trim (chunk_a @ chunk_b)) =
     Some (JObj [(''jsonrpc'', JStr ''2.0''), (''id'', JNum 1), (''result'', JObj [])])"
  by code_simp+

theorem split_frame_undelivered_witness:
  "JSON_parse (trim chunk_a) = None \<and> JSON_parse (trim chunk_b) = None
   \<and> handleServerOutput JSON_parse handshaking chunk_a = (None, handshaking)
   \<and> handleServerOutput JSON_parse handshaking chunk_b = (None, handshaking)
   \<and> run JSON_parse (step JSON_parse new_world (Call_connect 0)) [Stdout 0 chunk_a, Stdout 0 chunk_b]
       = step JSON_parse new_world (Call_connect 0)"
  using split_frame_undelivered [where parse = JSON_parse, OF chunks_alone(1) chunks_alone(2)]
    chunks_alone(1) chunks_alone(2)
  by simp

text \<open>
  C2 as stated fails on the frame of the scenario: while the handshake awaits the answer
  to request 1, the two chunks dispatch nothing, though the same text in one chunk
  resolves request 1.
\<close>

theorem split_frame_counterexample:
  "handleServerOutput JSON_parse handshaking chunk_a = (None, handshaking)
   \<and> handleServerOutput JSON_parse handshaking chunk_b = (None, handshaking)
   \<and> fst (handleServerOutput JSON_parse handshaking (chunk_a @ chunk_b))
       = Some (1, Connect, Inr (Some (JObj [])))"
  by (simp add: handleServerOutput_def Let_def chunks_alone chunks_joined handshaking_eq
        has_def get_def callback_def)

section \<open>The guard of \<^verbatim>\<open>connect\<close>\<close>

text \<open>
  C3 (as the code has it). \<^verbatim>\<open>connect\<close> is rejected, with nothing sent and nothing
  changed, when the connection flag is set. The flag is set only once the handshake has
  succeeded, so while it is not set, and in particular while an earlier handshake still
  awaits its answer, \<^verbatim>\<open>connect\<close> attaches its listeners and sends an
  \<^verbatim>\<open>initialize\<close> request under the next identifier.
\<close>

theorem connect_guard:
  "(isConnected c \<longrightarrow>
      connect c p = (Inl (Error ''Client is already connected to a server''), [], c))
   \<and> (\<not> isConnected c \<longrightarrow>
      connect c p =
        (Inr (nextRequestId c),
         [On p StdoutData, On p StderrData, On p Close,
          StdinWrite p (line (request_message (nextRequestId c) ''initialize'' initParams))],
         c\<lparr>serverProcess := Some p, nextRequestId := increment (nextRequestId c),
           responseHandlers := (responseHandlers c)(nextRequestId c \<mapsto> Connect)\<rparr>))"
  by (simp add: connect_def initialize_def request_def Let_def)

theorem connect_guard_witness:
  "isConnected ready
   \<and> connect ready 0 = (Inl (Error ''Client is already connected to a server''), [], ready)
   \<and> \<not> isConnected handshaking
   \<and> connect handshaking 0 =
        (Inr 2,
         [On 0 StdoutData, On 0 StderrData, On 0 Close,
          StdinWrite 0 (line (request_message 2 ''initialize'' initParams))],
         handshaking\<lparr>serverProcess := Some 0, nextRequestId := 3,
           responseHandlers := (responseHandlers handshaking)(2 \<mapsto> Connect)\<rparr>)"
  using connect_guard [of ready 0] connect_guard [of handshaking 0]
  by (simp add: ready_def handshaking_eq increment_def)

lemma second_initialize_line:
  \<open>line (request_message 2 ''initialize'' initParams) =
     ''{"jsonrpc":"2.0","id":2,"method":"initialize","params":{"protocolVersion":"2024-11-05","capabilities":{"roots":{"listChanged":true},"sampling":{}},"clientInfo":{"name":"MCPStudyClient","version":"1.0.0"}}}''
     @ [CHR 0x0A]\<close>
  by code_simp

text \<open>
  C3 as stated fails: a second \<^verbatim>\<open>connect\<close> during the handshake is not rejected;
  it writes a second \<^verbatim>\<open>initialize\<close> request, with identifier 2, and two
  handshakes are pending.
\<close>

theorem connect_while_handshaking_counterexample:
  \<open>fst (connect handshaking 0) = Inr 2
   \<and> fst (snd (connect handshaking 0)) =
       [On 0 StdoutData, On 0 StderrData, On 0 Close,
        StdinWrite 0 (''{"jsonrpc":"2.0","id":2,"method":"initialize","params":{"protocolVersion":"2024-11-05","capabilities":{"roots":{"listChanged":true},"sampling":{}},"clientInfo":{"name":"MCPStudyClient","version":"1.0.0"}}}'' @ [CHR 0x0A])]
   \<and> dom (responseHandlers (snd (snd (connect handshaking 0)))) = {1, 2}\<close>
  by (auto simp: connect_def initialize_def request_def Let_def handshaking_eq
        second_initialize_line simp del: append.simps)


section \<open>Identifier zero\<close>

lemma nth_id_pos: "0 < nth_id i"
  by (simp add: nth_id_def)

lemma counted_reachable: "counted (run parse new_world evs)"
  by (rule counted_run [OF counted_new_world])

lemma reachable_counter_pos: "0 < nextRequestId (the_client (run parse new_world evs))"
  using counted_reachable [of parse evs] by (simp add: counted_def nth_id_pos)

lemma reachable_no_zero: "responseHandlers (the_client (run parse new_world evs)) 0 = None"
proof -
  let ?w = "run parse new_world evs"
  have "0 \<notin> set (map nth_id [0..<length (issued (returned ?w))])"
    using nth_id_pos by (auto simp: less_le)
  with counted_reachable [of parse evs] have "0 \<notin> dom (responseHandlers (the_client ?w))"
    unfolding counted_def by auto
  then show ?thesis by auto
qed

text \<open>
  C10. A chunk that parses to an object whose \<^verbatim>\<open>id\<close> is 0 or missing makes the
  handler invoke no continuation and change nothing, also when a handler is registered
  under 0; and in no session is a handler ever registered under 0, since the identifiers
  issued start at 1.
\<close>

theorem id_zero_ignored:
  assumes "parse (trim data) = Some response"
    and "get_prop response ''id'' = Some (JNum 0) \<or> get_prop response ''id'' = None"
  shows "handleServerOutput parse c data = (None, c)
         \<and> deliver parse c data = ([], c)
         \<and> responseHandlers (the_client (run parse new_world evs)) 0 = None"
  using assms reachable_no_zero [of parse evs]
  by (auto simp: handleServerOutput_def deliver_def Let_def)

lemma parse_frame_id_0:
  "JSON_parse (trim frame_id_0) =
     Some (JObj [(''jsonrpc'', JStr ''2.0''), (''id'', JNum 0), (''result'', JObj [])])"
  by code_simp

theorem id_zero_ignored_witness:
  "JSON_parse (trim frame_id_0) =
     Some (JObj [(''jsonrpc'', JStr ''2.0''), (''id'', JNum 0), (''result'', JObj [])])
   \<and> get_prop (JObj [(''jsonrpc'', JStr ''2.0''), (''id'', JNum 0), (''result'', JObj [])]) ''id''
       = Some (JNum 0)
   \<and> responseHandlers handler_at_zero 0 = Some ListTools
   \<and> handleServerOutput JSON_parse handler_at_zero frame_id_0 = (None, handler_at_zero)
   \<and> deliver JSON_parse handler_at_zero frame_id_0 = ([], handler_at_zero)
   \<and> responseHandlers (the_client (run JSON_parse new_world [Call_connect 0])) 0 = None"
proof -
  have h: "get_prop (JObj [(''jsonrpc'', JStr ''2.0''), (''id'', JNum 0), (''result'', JObj [])]) ''id''
       = Some (JNum 0) \<or>
     get_prop (JObj [(''jsonrpc'', JStr ''2.0''), (''id'', JNum 0), (''result'', JObj [])]) ''id''
       = None"
    by simp
  from id_zero_ignored [where parse = JSON_parse and data = frame_id_0 and c = handler_at_zero
      and evs = "[Call_connect 0]", OF parse_frame_id_0 h] parse_frame_id_0
  show ?thesis by (simp add: handler_at_zero_def)
qed

section \<open>The handshake\<close>

lemma run_append: "run parse w (xs @ ys) = run parse (run parse w xs) ys"
  by (simp add: run_def)

lemma connect_accepted:
  "\<not> isConnected c \<Longrightarrow>
     connect c p =
       (Inr (nextRequestId c),
        [On p StdoutData, On p StderrData, On p Close,
         StdinWrite p (line (request_message (nextRequestId c) ''initialize'' initParams))],
        c\<lparr>serverProcess := Some p, nextRequestId := increment (nextRequestId c),
          responseHandlers := (responseHandlers c)(nextRequestId c \<mapsto> Connect)\<rparr>)"
  by (simp add: connect_def initialize_def request_def Let_def)

lemma handleServerOutput_match:
  assumes "startsWith (trim data) ''{''" and "endsWith (trim data) ''}''"
    and "parse (trim data) = Some response"
    and "get_prop response ''id'' = Some (JNum n)" and "n \<noteq> 0"
    and "responseHandlers c n = Some k"
    and "callback response = Some r"
  shows "handleServerOutput parse c data =
           (Some (n, k, r), c\<lparr>responseHandlers := (responseHandlers c)(n := None)\<rparr>)"
  using assms by (auto simp: handleServerOutput_def Let_def has_def get_def)

lemma handleServerOutput_thrown:
  "callback response = None \<Longrightarrow> parse (trim data) = Some response \<Longrightarrow>
     handleServerOutput parse c data = (None, c)"
  by (auto simp: handleServerOutput_def Let_def split: option.splits)

lemma callback_error:
  "get_prop response ''error'' = Some err \<Longrightarrow> truthy (Some err) \<Longrightarrow>
   \<not> conversion_throws (get_prop err ''message'') \<Longrightarrow>
   \<not> conversion_throws (get_prop err ''code'') \<Longrightarrow>
     callback response =
       Some (Inl (RequestFailed (get_prop err ''message'') (get_prop err ''code'')))"
  by (simp add: callback_def)


lemma listeners_after_connect:
  "listeners (tr @ [On p StdoutData, On p StderrData, On p Close, StdinWrite q s]) p StdoutData
     = Suc (listeners tr p StdoutData)"
  by (simp add: listeners_def)

lemma step_connect_accepted:
  assumes "\<not> isConnected (the_client w)"
  shows "step parse w (Call_connect p) =
     w\<lparr>the_client := (the_client w)\<lparr>serverProcess := Some p,
            nextRequestId := increment (nextRequestId (the_client w)),
            responseHandlers :=
              (responseHandlers (the_client w))(nextRequestId (the_client w) \<mapsto> Connect)\<rparr>,
       trace := trace w @ [On p StdoutData, On p StderrData, On p Close,
          StdinWrite p (line (request_message (nextRequestId (the_client w)) ''initialize''
            initParams))],
       returned := returned w @ [Inr (nextRequestId (the_client w))]\<rparr>"
  by (simp add: connect_accepted [OF assms])

lemma deliver_initialize_answer:
  assumes "startsWith (trim data) ''{''" and "endsWith (trim data) ''}''"
    and "parse (trim data) = Some response"
    and "get_prop response ''id'' = Some (JNum n)" and "n \<noteq> 0"
    and "responseHandlers c n = Some Connect"
    and "callback response = Some r"
  shows "deliver parse c data =
           connect_resume (c\<lparr>responseHandlers := (responseHandlers c)(n := None)\<rparr>) n r"
  using assms by (simp add: deliver_def handleServerOutput_match)

text \<open>
  A session whose client is not connected, a call of \<^verbatim>\<open>connect\<close>, and a chunk in
  which the child answers the \<^verbatim>\<open>initialize\<close> request, the handler settling the
  request's promise to \<open>r\<close>.
\<close>

lemma handshake_answered:
  assumes "w = run parse new_world evs" and "\<not> isConnected (the_client w)"
    and "startsWith (trim data) ''{''" and "endsWith (trim data) ''}''"
    and "parse (trim data) = Some response"
    and "get_prop response ''id'' = Some (JNum (nextRequestId (the_client w)))"
    and "callback response = Some r"
  shows "run parse w [Call_connect p, Stdout p data] =
     (case connect_resume
             ((the_client w)\<lparr>serverProcess := Some p,
                nextRequestId := increment (nextRequestId (the_client w)),
                responseHandlers :=
                  (responseHandlers (the_client w))(nextRequestId (the_client w) := None)\<rparr>)
             (nextRequestId (the_client w)) r of
        (es, c) \<Rightarrow>
          w\<lparr>the_client := c,
            trace := trace w @ [On p StdoutData, On p StderrData, On p Close,
              StdinWrite p (line (request_message (nextRequestId (the_client w)) ''initialize''
                initParams))] @ es,
            returned := returned w @ [Inr (nextRequestId (the_client w))]\<rparr>)"
proof -
  let ?n = "nextRequestId (the_client w)"
  let ?c1 = "(the_client w)\<lparr>serverProcess := Some p, nextRequestId := increment ?n,
      responseHandlers := (responseHandlers (the_client w))(?n \<mapsto> Connect)\<rparr>"
  define w1 where "w1 = step parse w (Call_connect p)"
  have w1: "w1 = w\<lparr>the_client := ?c1,
       trace := trace w @ [On p StdoutData, On p StderrData, On p Close,
          StdinWrite p (line (request_message ?n ''initialize'' initParams))],
       returned := returned w @ [Inr ?n]\<rparr>"
    unfolding w1_def by (rule step_connect_accepted [OF assms(2)])
  have pos: "?n \<noteq> 0"
    using reachable_counter_pos [of parse evs] assms(1) by simp
  have d: "deliver parse ?c1 data =
      connect_resume (?c1\<lparr>responseHandlers := (responseHandlers ?c1)(?n := None)\<rparr>) ?n r"
    using assms(3-7) pos by (simp add: deliver_initialize_answer)
  have l: "listeners (trace w1) p StdoutData = Suc (listeners (trace w) p StdoutData)"
    by (simp add: w1 listeners_after_connect)
  have "run parse w [Call_connect p, Stdout p data] = step parse w1 (Stdout p data)"
    by (simp add: run_def w1_def del: step.simps)
  also have "\<dots> = (case deliver parse ?c1 data of
        (es, c) \<Rightarrow> w1\<lparr>the_client := c, trace := trace w1 @ es\<rparr>)"
    by (simp add: l stdout_data_deliver) (simp add: w1)
  finally show ?thesis
    by (simp add: d w1 split: prod.splits)
qed

lemma run_nothing: "w = run parse w []"
  by (simp add: run_def)

lemma new_world_unconnected: "\<not> isConnected (the_client new_world)"
  by (simp add: new_world_def new_client_def)

subsection \<open>An answer with an error\<close>

lemma init_error_frame_parsed:
  "startsWith (trim init_error_frame) ''{''" "endsWith (trim init_error_frame) ''}''"
  "JSON_parse (trim init_error_frame) = Some init_error"
  by code_simp+

lemma boom_text: "show_int (- 32000) = ''-32000''"
  by code_simp

text \<open>
  C5. In any session whose client is not connected, when \<^verbatim>\<open>connect\<close> is called
  and the child answers the \<^verbatim>\<open>initialize\<close> request with a response whose
  \<^verbatim>\<open>error\<close> is an object (or any truthy value) whose \<^verbatim>\<open>message\<close> and
  \<^verbatim>\<open>code\<close> convert to strings, as every string and number does, the promise of
  \<^verbatim>\<open>connect\<close> is rejected with the error of \<^verbatim>\<open>request\<close> that holds this
  message and this code; for a string \<open>m\<close> and an integer \<open>k\<close> up to \<open>2\<^sup>5\<^sup>3\<close> its
  message reads \<^verbatim>\<open>Request failed: m (k)\<close>. Nothing more is sent, the handler is
  gone, the connection flag stays unset, and \<^verbatim>\<open>listTools\<close> is rejected afterwards.
\<close>

theorem initialize_error_fails_connect:
  assumes "w = run parse new_world evs" and "\<not> isConnected (the_client w)"
    and "startsWith (trim data) ''{''" and "endsWith (trim data) ''}''"
    and "parse (trim data) = Some response"
    and "get_prop response ''id'' = Some (JNum (nextRequestId (the_client w)))"
    and "get_prop response ''error'' = Some err" and "truthy (Some err)"
    and "\<not> conversion_throws (get_prop err ''message'')"
    and "\<not> conversion_throws (get_prop err ''code'')"
    and "w' = run parse w [Call_connect p, Stdout p data]"
  shows "trace w' =
           trace w @
           [On p StdoutData, On p StderrData, On p Close,
            StdinWrite p (line (request_message (nextRequestId (the_client w)) ''initialize''
              initParams)),
            Settle Connect (nextRequestId (the_client w))
              (Inl (RequestFailed (get_prop err ''message'') (get_prop err ''code'')))]
         \<and> (\<forall>m k. get_prop err ''message'' = Some (JStr m)
                \<and> get_prop err ''code'' = Some (JNum k) \<and> \<bar>k\<bar> \<le> 9007199254740992
              \<longrightarrow> error_message (RequestFailed (get_prop err ''message'') (get_prop err ''code''))
                    = Some (''Request failed: '' @ m @ '' ('' @ show_int k @ '')''))
         \<and> \<not> isConnected (the_client w')
         \<and> responseHandlers (the_client w') =
             (responseHandlers (the_client w))(nextRequestId (the_client w) := None)
         \<and> listTools (the_client w') =
             (Inl (Error ''Not connected to a server''), [], the_client w')"
  using assms(2)
  by (simp add: assms(11) handshake_answered [OF assms(1-6) callback_error [OF assms(7-10)]]
      connect_resume_def initialize_resume_def listTools_def)

theorem initialize_error_fails_connect_witness:
  "\<not> isConnected (the_client new_world)
   \<and> JSON_parse (trim init_error_frame) = Some init_error
   \<and> get_prop init_error ''id'' = Some (JNum (nextRequestId (the_client new_world)))
   \<and> truthy (get_prop init_error ''error'')
   \<and> trace (run JSON_parse new_world [Call_connect 0, Stdout 0 init_error_frame]) =
       [On 0 StdoutData, On 0 StderrData, On 0 Close,
        StdinWrite 0 (line (request_message 1 ''initialize'' initParams)),
        Settle Connect 1 (Inl (RequestFailed (Some (JStr ''boom'')) (Some (JNum (- 32000)))))]
   \<and> error_message (RequestFailed (Some (JStr ''boom'')) (Some (JNum (- 32000))))
       = Some ''Request failed: boom (-32000)''
   \<and> \<not> isConnected (the_client (run JSON_parse new_world [Call_connect 0, Stdout 0 init_error_frame]))"
proof -
  let ?err = "JObj [(''code'', JNum (- 32000)), (''message'', JStr ''boom'')]"
  have a6: "get_prop init_error ''id'' = Some (JNum (nextRequestId (the_client new_world)))"
    by (simp add: init_error_def new_world_def new_client_def)
  have a7: "get_prop init_error ''error'' = Some ?err"
    by (simp add: init_error_def)
  have a8: "truthy (Some ?err)"
    by simp
  have a9: "\<not> conversion_throws (get_prop ?err ''message'')"
    "\<not> conversion_throws (get_prop ?err ''code'')"
    by (simp_all add: conversion_throws_def)
  from initialize_error_fails_connect [where parse = JSON_parse and evs = "[]" and p = 0,
      OF run_nothing new_world_unconnected init_error_frame_parsed a6 a7 a8 a9 refl]
    new_world_unconnected a6 a7 init_error_frame_parsed(3) boom_text
  show ?thesis
    by (simp add: new_world_def new_client_def)
qed

text \<open>
  When the message of the error has no conversion to a string, the handler throws inside
  \<^verbatim>\<open>handleServerOutput\<close>: nothing is settled and the handler stays registered.
\<close>

lemma odd_error_frame_parsed:
  "startsWith (trim odd_error_frame) ''{''" "endsWith (trim odd_error_frame) ''}''"
  "JSON_parse (trim odd_error_frame) = Some odd_error"
  by code_simp+

lemma odd_error_unsettled:
  "deliver JSON_parse handshaking odd_error_frame = ([], handshaking)"
proof -
  have "callback odd_error = None"
    by (simp add: callback_def odd_error_def conversion_throws_def)
  then have "handleServerOutput JSON_parse handshaking odd_error_frame = (None, handshaking)"
    using odd_error_frame_parsed(3) by (rule handleServerOutput_thrown)
  then show ?thesis by (simp add: deliver_def)
qed

subsection \<open>An answer without error\<close>

lemma init_ok_frame_parsed:
  "startsWith (trim init_ok_frame) ''{''" "endsWith (trim init_ok_frame) ''}''"
  "JSON_parse (trim init_ok_frame) = Some init_ok"
  by code_simp+





lemma init_ok_logged: "\<not> logging_throws
    (JObj [(''protocolVersion'', JStr ''2024-11-05''), (''capabilities'', JObj []),
           (''serverInfo'', JObj [(''name'', JStr ''x''), (''version'', JStr ''1'')])])"
  by (simp add: logging_throws_def or_default_throws_def conversion_throws_def)



section \<open>Request identifiers\<close>

lemma after_handshake:
  "run JSON_parse new_world [Call_connect 0, Stdout 0 init_ok_frame] =
     \<lparr>the_client = ready,
      trace = [On 0 StdoutData, On 0 StderrData, On 0 Close,
        StdinWrite 0 (line (request_message 1 ''initialize'' initParams)),
        StdinWrite 0 (line (notification_message ''notifications/initialized'' (JObj []))),
        Settle Connect 1 (Inr None)],
      returned = [Inr 1]\<rparr>"
proof -
  have a6: "get_prop init_ok ''id'' = Some (JNum (nextRequestId (the_client new_world)))"
    by (simp add: init_ok_def new_world_def new_client_def)
  have cb: "callback init_ok = Some (Inr (Some (JObj [(''protocolVersion'', JStr ''2024-11-05''),
      (''capabilities'', JObj []),
      (''serverInfo'', JObj [(''name'', JStr ''x''), (''version'', JStr ''1'')])])))"
    by (simp add: callback_def init_ok_def)
  show ?thesis
    using handshake_answered [where parse = JSON_parse and evs = "[]" and p = 0,
        OF run_nothing new_world_unconnected init_ok_frame_parsed a6 cb]
    by (simp add: connect_resume_def initialize_resume_def init_ok_logged notification_def
        increment_def new_world_def new_client_def ready_def)
qed

lemma busy_session_2:
  "run JSON_parse new_world (busy_session 2) =
     \<lparr>the_client = two_pending,
      trace = [On 0 StdoutData, On 0 StderrData, On 0 Close,
        StdinWrite 0 (line (request_message 1 ''initialize'' initParams)),
        StdinWrite 0 (line (notification_message ''notifications/initialized'' (JObj []))),
        Settle Connect 1 (Inr None),
        StdinWrite 0 (line (request_message 2 ''tools/list'' (JObj []))),
        StdinWrite 0 (line (request_message 3 ''tools/list'' (JObj [])))],
      returned = [Inr 1, Inr 2, Inr 3]\<rparr>"
  unfolding busy_session_def run_append after_handshake
  by (simp add: numeral_2_eq_2 run_def listTools_def request_def Let_def ready_def
      two_pending_def increment_def)

text \<open>
  C4. In every session, as long as at most \<open>2\<^sup>5\<^sup>3\<close> requests have been issued in it, which
  is as far as a counter held in a double counts, each identifier is greater than all
  identifiers issued before it, none is issued twice, and every handler in the registry is
  registered under an identifier that was issued; the registry, a map, holds one handler
  per identifier.
\<close>

theorem identifiers_increase:
  assumes "w = run parse new_world evs"
    and "int (length (issued (returned w))) \<le> 9007199254740992"
  shows "sorted_wrt (<) (issued (returned w))
         \<and> distinct (issued (returned w))
         \<and> dom (responseHandlers (the_client w)) \<subseteq> set (issued (returned w))"
proof -
  from assms(1) have c: "counted w"
    by (simp add: counted_reachable)
  then have eq: "issued (returned w) = map nth_id [0..<length (issued (returned w))]"
    by (simp add: counted_def)
  from sorted_nth_id [OF assms(2)] eq have s: "sorted_wrt (<) (issued (returned w))"
    by simp
  then have "distinct (issued (returned w))"
    by (simp add: strict_sorted_iff)
  with s c show ?thesis by (simp add: counted_def)
qed

theorem identifiers_increase_witness:
  "int (length (issued (returned (run JSON_parse new_world (busy_session 2))))) \<le> 9007199254740992
   \<and> issued (returned (run JSON_parse new_world (busy_session 2))) = [1, 2, 3]
   \<and> sorted_wrt (<) (issued (returned (run JSON_parse new_world (busy_session 2))))
   \<and> distinct (issued (returned (run JSON_parse new_world (busy_session 2))))"
proof -
  have h: "int (length (issued (returned (run JSON_parse new_world (busy_session 2)))))
      \<le> 9007199254740992"
    by (simp add: busy_session_2)
  from identifiers_increase [OF refl h] h show ?thesis
    by (simp add: busy_session_2)
qed

end
